theory Spec2Isabelle
  imports Main
begin

section \<open>WidgetLayout.vue: the layout dispatcher\<close>

text \<open>
  The two row-kind components registered by \<^verbatim>\<open>WidgetLayout.vue\<close>
  (\<^verbatim>\<open>components: { WidgetRow, WidgetSection }\<close>).
\<close>

datatype component = WidgetRow | WidgetSection

text \<open>A thrown JavaScript \<^verbatim>\<open>Error\<close>, carrying its message.\<close>

datatype error = Error string

text \<open>
  The prop \<^verbatim>\<open>layout: WidgetLayout\<close>. The template reads its two fields
  \<^verbatim>\<open>layout.layout\<close> and \<^verbatim>\<open>layout.layout_target\<close>. The type of a row
  descriptor (\<^verbatim>\<open>LayoutRow\<close>) and of the target are declared in
  \<^verbatim>\<open>@/dispatcher/js-messages\<close>, so they are type parameters here.
\<close>

record ('r, 't) WidgetLayout =
  layout :: "'r list"
  layout_target :: "'t"

text \<open>
  \<^verbatim>\<open>layoutRowType(layoutRow)\<close>. The type guards \<^verbatim>\<open>isWidgetRow\<close> and
  \<^verbatim>\<open>isWidgetSection\<close> are imported from \<^verbatim>\<open>@/dispatcher/js-messages\<close>; they are
  taken as parameters. The guards are tried in the order of the source, and the
  \<^verbatim>\<open>throw\<close> is the \<open>Inl\<close> branch.
\<close>

definition layoutRowType :: "('r \<Rightarrow> bool) \<Rightarrow> ('r \<Rightarrow> bool) \<Rightarrow> 'r \<Rightarrow> error + component" where
  "layoutRowType isWidgetRow isWidgetSection layoutRow =
     (if isWidgetRow layoutRow then Inr WidgetRow
      else if isWidgetSection layoutRow then Inr WidgetSection
      else Inl (Error ''Layout row type does not exist''))"

text \<open>
  One \<^verbatim>\<open><component :is=... :widgetData=... :layoutTarget=...>\<close> node of the template,
  with the \<^verbatim>\<open>:key\<close> of the enclosing \<^verbatim>\<open>v-for\<close>.
\<close>

record ('r, 't) vnode =
  key :: nat
  is_component :: component
  widgetData :: "'r"
  layoutTarget :: "'t"

text \<open>
  The \<^verbatim>\<open>v-for="(layoutRow, index) in layout.layout"\<close> loop, from index \<open>index\<close> on.
  An exception thrown by \<^verbatim>\<open>layoutRowType\<close> while a row is rendered leaves the
  loop and the render; no node list is produced.
\<close>

fun render_rows ::
  "('r \<Rightarrow> bool) \<Rightarrow> ('r \<Rightarrow> bool) \<Rightarrow> 't \<Rightarrow> nat \<Rightarrow> 'r list \<Rightarrow> error + ('r, 't) vnode list" where
  "render_rows isWidgetRow isWidgetSection target index [] = Inr []"
| "render_rows isWidgetRow isWidgetSection target index (layoutRow # rest) =
     (case layoutRowType isWidgetRow isWidgetSection layoutRow of
        Inl e \<Rightarrow> Inl e
      | Inr c \<Rightarrow>
          (case render_rows isWidgetRow isWidgetSection target (Suc index) rest of
             Inl e \<Rightarrow> Inl e
           | Inr nodes \<Rightarrow>
               Inr (\<lparr>key = index, is_component = c, widgetData = layoutRow,
                     layoutTarget = target\<rparr> # nodes)))"

text \<open>The template of \<^verbatim>\<open>WidgetLayout.vue\<close>: the children of the \<^verbatim>\<open>div\<close>.\<close>

definition render ::
  "('r \<Rightarrow> bool) \<Rightarrow> ('r \<Rightarrow> bool) \<Rightarrow> ('r, 't) WidgetLayout \<Rightarrow> error + ('r, 't) vnode list" where
  "render isWidgetRow isWidgetSection l =
     render_rows isWidgetRow isWidgetSection (layout_target l) 0 (layout l)"

section \<open>FieldInput.vue: the base field wrapper\<close>

text \<open>
  What the user, or the browser, does to the \<^verbatim>\<open><input>\<close> element of the wrapper.
  An \<^verbatim>\<open>input\<close> event after typing comes in two kinds, \<open>v\<close> being the text the box
  then holds. \<open>Input v\<close> is one that the listener installed by \<^verbatim>\<open>v-model\<close> handles:
  it hands \<open>v\<close> to the setter of the bound property. \<open>ComposingInput v\<close> is one fired
  while an input-method composition is in progress: the listener of \<^verbatim>\<open>v-model\<close>
  returns early and hands nothing over. The \<^verbatim>\<open>input\<close> event that \<^verbatim>\<open>v-model\<close>
  dispatches itself when a composition ends is an \<open>Input\<close> of its own.
  \<open>Keydown k\<close> is a \<^verbatim>\<open>keydown\<close> event, of which the template distinguishes the keys
  \<^verbatim>\<open>enter\<close> and \<^verbatim>\<open>esc\<close>; \<open>OtherEvent\<close> stands for every event the template
  binds no listener to.
\<close>

datatype key_name = Enter | Esc | OtherKey

datatype dom_event =
  Focus | Blur | Change | Keydown key_name | Input string | ComposingInput string | OtherEvent

text \<open>
  \<^verbatim>\<open>emits: ["update:value", "textFocused", "textChanged", "cancelTextChange"]\<close>
\<close>

datatype FieldInput_emit = update_value string | textFocused | textChanged | cancelTextChange

text \<open>The props of the wrapper and its one data field \<^verbatim>\<open>id\<close>.\<close>

record FieldInput =
  fi_value :: string
  fi_label :: "string option"
  fi_spellcheck :: bool
  fi_disabled :: bool
  fi_id :: string


definition inputValue_set :: "string \<Rightarrow> FieldInput \<Rightarrow> FieldInput \<times> FieldInput_emit list" where
  "inputValue_set v this = (this, [update_value v])"

text \<open>
  The listeners of the \<^verbatim>\<open><input>\<close> element, in the order of the template:
  \<^verbatim>\<open>v-model="inputValue"\<close>, \<^verbatim>\<open>@focus\<close>, \<^verbatim>\<open>@blur\<close>, \<^verbatim>\<open>@change\<close>,
  \<^verbatim>\<open>@keydown.enter\<close>, \<^verbatim>\<open>@keydown.esc\<close>.
\<close>

fun FieldInput_on_event :: "dom_event \<Rightarrow> FieldInput \<Rightarrow> FieldInput \<times> FieldInput_emit list" where
  "FieldInput_on_event (Input v) this = inputValue_set v this"
| "FieldInput_on_event (ComposingInput v) this = (this, [])"
| "FieldInput_on_event Focus this = (this, [textFocused])"
| "FieldInput_on_event Blur this = (this, [textChanged])"
| "FieldInput_on_event Change this = (this, [textChanged])"
| "FieldInput_on_event (Keydown Enter) this = (this, [textChanged])"
| "FieldInput_on_event (Keydown Esc) this = (this, [cancelTextChange])"
| "FieldInput_on_event (Keydown OtherKey) this = (this, [])"
| "FieldInput_on_event OtherEvent this = (this, [])"




section \<open>TextInput: the text-input specialization\<close>

text \<open>
  The part of the \<^verbatim>\<open>HTMLInputElement\<close> behind
  \<^verbatim>\<open>$refs.fieldInput.$refs.input\<close> that the methods touch: its text, its selection
  (start and end offsets) and whether it has the focus.
\<close>

record input_element =
  el_value :: string
  el_selection :: "(nat \<times> nat) option"
  el_focused :: bool

text \<open>
  \<^verbatim>\<open>inputElement.value = v\<close>. The value setter of the element does not store \<open>v\<close> as
  it is: the browser first sanitises it (for a text input, line breaks are removed).
  The sanitisation is the browser's, so it is a parameter.
\<close>

definition set_value :: "(string \<Rightarrow> string) \<Rightarrow> string \<Rightarrow> input_element \<Rightarrow> input_element" where
  "set_value sanitize v el = el\<lparr>el_value := sanitize v\<rparr>"

text \<open>\<^verbatim>\<open>inputElement.select()\<close> selects all the text of the element.\<close>

definition select :: "input_element \<Rightarrow> input_element" where
  "select el = el\<lparr>el_selection := Some (0, length (el_value el))\<rparr>"

text \<open>
  \<^verbatim>\<open>inputElement.blur()\<close> takes the focus from the element. The \<^verbatim>\<open>blur\<close> event
  that the browser fires for it reaches the component as an interaction of its own
  (\<open>Blur\<close> below).
\<close>

definition blur :: "input_element \<Rightarrow> input_element" where
  "blur el = el\<lparr>el_focused := False\<rparr>"

text \<open>\<^verbatim>\<open>emits: ["update:value"]\<close>\<close>

datatype TextInput_emit = TextInput_update_value string

text \<open>The props of the component, its data field \<^verbatim>\<open>editing\<close> and the element.\<close>

record TextInput =
  ti_value :: string
  ti_label :: "string option"
  ti_disabled :: bool
  editing :: bool
  inputElement :: input_element

text \<open>\<^verbatim>\<open>data() { return { editing: false }; }\<close> on a freshly created component.\<close>

definition created :: "string \<Rightarrow> string option \<Rightarrow> bool \<Rightarrow> input_element \<Rightarrow> TextInput" where
  "created v l d el =
     \<lparr>ti_value = v, ti_label = l, ti_disabled = d, editing = False, inputElement = el\<rparr>"

text \<open>The computed property \<^verbatim>\<open>text\<close>.\<close>

definition text_get :: "TextInput \<Rightarrow> string" where
  "text_get this = ti_value this"

definition text_set :: "string \<Rightarrow> TextInput \<Rightarrow> TextInput \<times> TextInput_emit list" where
  "text_set v this = (this, [TextInput_update_value v])"

text \<open>
  The three methods. \<open>onTextFocused\<close> assigns to \<^verbatim>\<open>inputElement.value\<close>, so it
  takes the sanitisation of the value setter.
\<close>

definition onTextFocused :: "(string \<Rightarrow> string) \<Rightarrow> TextInput \<Rightarrow> TextInput" where
  "onTextFocused sanitize this =
     (let this1 = this\<lparr>editing := True\<rparr>;
          el = inputElement this1;
          el1 = set_value sanitize (text_get this1) el;
          el2 = select el1
      in this1\<lparr>inputElement := el2\<rparr>)"

definition onCancelTextChange :: "TextInput \<Rightarrow> TextInput" where
  "onCancelTextChange this =
     (let this1 = this\<lparr>editing := False\<rparr>;
          el = inputElement this1
      in this1\<lparr>inputElement := blur el\<rparr>)"

definition onTextChanged :: "TextInput \<Rightarrow> TextInput" where
  "onTextChanged this = (if editing this then onCancelTextChange this else this)"

text \<open>
  The template of the component: the props it binds on the wrapper
  (\<^verbatim>\<open>v-model:value="text" :label="label" :spellcheck="true" :disabled="disabled"\<close>)
  and its listeners for the events of the wrapper.
\<close>

definition TextInput_field_props :: "TextInput \<Rightarrow> string \<Rightarrow> FieldInput" where
  "TextInput_field_props this ident =
     \<lparr>fi_value = text_get this, fi_label = ti_label this, fi_spellcheck = True,
      fi_disabled = ti_disabled this, fi_id = ident\<rparr>"

fun TextInput_on_emit ::
  "(string \<Rightarrow> string) \<Rightarrow> FieldInput_emit \<Rightarrow> TextInput \<Rightarrow> TextInput \<times> TextInput_emit list" where
  "TextInput_on_emit sanitize (update_value v) this = text_set v this"
| "TextInput_on_emit sanitize textFocused this = (onTextFocused sanitize this, [])"
| "TextInput_on_emit sanitize textChanged this = (onTextChanged this, [])"
| "TextInput_on_emit sanitize cancelTextChange this = (onCancelTextChange this, [])"

fun TextInput_on_emits ::
  "(string \<Rightarrow> string) \<Rightarrow> FieldInput_emit list \<Rightarrow> TextInput \<Rightarrow> TextInput \<times> TextInput_emit list" where
  "TextInput_on_emits sanitize [] this = (this, [])"
| "TextInput_on_emits sanitize (x # xs) this =
     (case TextInput_on_emit sanitize x this of
        (this1, out1) \<Rightarrow>
          (case TextInput_on_emits sanitize xs this1 of (this2, out2) \<Rightarrow> (this2, out1 @ out2)))"

text \<open>
  One interaction with the text box of a mounted component. The browser first changes
  the element (focus gained or lost, text typed), then the listeners of the wrapper run
  and the component handles every event the wrapper emits.
\<close>

fun browser_update :: "dom_event \<Rightarrow> input_element \<Rightarrow> input_element" where
  "browser_update Focus el = el\<lparr>el_focused := True\<rparr>"
| "browser_update Blur el = el\<lparr>el_focused := False\<rparr>"
| "browser_update (Input v) el = el\<lparr>el_value := v\<rparr>"
| "browser_update (ComposingInput v) el = el\<lparr>el_value := v\<rparr>"
| "browser_update e el = el"

definition TextInput_on_event ::
  "(string \<Rightarrow> string) \<Rightarrow> string \<Rightarrow> dom_event \<Rightarrow> TextInput \<Rightarrow> TextInput \<times> TextInput_emit list" where
  "TextInput_on_event sanitize ident e this =
     (let this1 = this\<lparr>inputElement := browser_update e (inputElement this)\<rparr>
      in TextInput_on_emits sanitize
           (snd (FieldInput_on_event e (TextInput_field_props this1 ident))) this1)"

text \<open>A sequence of interactions, with everything the component emitted on the way.\<close>

fun run ::
  "(string \<Rightarrow> string) \<Rightarrow> string \<Rightarrow> dom_event list \<Rightarrow> TextInput \<Rightarrow> TextInput \<times> TextInput_emit list" where
  "run sanitize ident [] this = (this, [])"
| "run sanitize ident (e # es) this =
     (case TextInput_on_event sanitize ident e this of
        (this1, out1) \<Rightarrow>
          (case run sanitize ident es this1 of (this2, out2) \<Rightarrow> (this2, out1 @ out2)))"

text \<open>The interactions that the wrapper turns into a commit or a cancel.\<close>

fun commits_or_cancels :: "dom_event \<Rightarrow> bool" where
  "commits_or_cancels Blur = True"
| "commits_or_cancels Change = True"
| "commits_or_cancels (Keydown Enter) = True"
| "commits_or_cancels (Keydown Esc) = True"
| "commits_or_cancels e = False"

section \<open>Properties of the layout dispatcher\<close>

lemma layoutRowType_cases:
  "layoutRowType isR isS r =
     (if isR r then Inr WidgetRow else if isS r then Inr WidgetSection
      else Inl (Error ''Layout row type does not exist''))"
  by (simp add: layoutRowType_def)

text \<open>
  When every row passes one of the two guards the loop ends normally, and its nodes are
  described field by field.
\<close>

lemma render_rows_all_guarded:
  "\<forall>r\<in>set rs. isR r \<or> isS r \<Longrightarrow>
   \<exists>nodes. render_rows isR isS t i rs = Inr nodes \<and>
     map is_component nodes = map (\<lambda>r. if isR r then WidgetRow else WidgetSection) rs \<and>
     map widgetData nodes = rs \<and>
     map layoutTarget nodes = replicate (length rs) t \<and>
     map key nodes = [i ..< i + length rs]"
proof (induction rs arbitrary: i)
  case Nil
  then show ?case by simp
next
  case (Cons r rs)
  have guard: "isR r \<or> isS r" using Cons.prems by simp
  have "\<forall>r\<in>set rs. isR r \<or> isS r" using Cons.prems by simp
  from Cons.IH [OF this, of "Suc i"] obtain nodes where
    rest: "render_rows isR isS t (Suc i) rs = Inr nodes" and
    comps: "map is_component nodes = map (\<lambda>r. if isR r then WidgetRow else WidgetSection) rs" and
    data: "map widgetData nodes = rs" and
    targets: "map layoutTarget nodes = replicate (length rs) t" and
    keys: "map key nodes = [Suc i ..< Suc i + length rs]"
    by blast
  have idx: "[i ..< i + length (r # rs)] = i # [Suc i ..< Suc i + length rs]"
    by (subst upt_rec) simp
  show ?case
    unfolding idx using guard rest comps data targets keys
    by (auto simp: layoutRowType_cases simp del: upt_Suc)
qed

text \<open>One row that passes neither guard makes the whole loop throw.\<close>

lemma render_rows_unguarded:
  "\<exists>r\<in>set rs. \<not> isR r \<and> \<not> isS r \<Longrightarrow>
   render_rows isR isS t i rs = Inl (Error ''Layout row type does not exist'')"
proof (induction rs arbitrary: i)
  case Nil
  then show ?case by simp
next
  case (Cons r rs)
  show ?case
  proof (cases "isR r \<or> isS r")
    case True
    then have "\<exists>r\<in>set rs. \<not> isR r \<and> \<not> isS r" using Cons.prems by auto
    then have "render_rows isR isS t (Suc i) rs = Inl (Error ''Layout row type does not exist'')"
      by (rule Cons.IH)
    then show ?thesis using True by (auto simp: layoutRowType_cases)
  next
    case False
    then show ?thesis by (simp add: layoutRowType_cases)
  qed
qed

text \<open>
  In the closed examples below a row descriptor is a pair of truth values, saying which
  of the two guards it passes: \<open>isWidgetRow = fst\<close> and \<open>isWidgetSection = snd\<close>.
\<close>

text \<open>
  Claim C1, as stated: every row of the layout list is rendered as one of the two
  components, \<open>WidgetRow\<close> when it passes \<open>isWidgetRow\<close> and \<open>WidgetSection\<close> when it
  passes \<open>isWidgetSection\<close>. This fails on the code in two places. A row that passes
  neither guard is given no component: \<open>layoutRowType\<close> throws. A row that passes both
  guards is given \<open>WidgetRow\<close>, not \<open>WidgetSection\<close>, because \<open>isWidgetRow\<close> is tried
  first.
\<close>

theorem layoutRowType_not_always_as_stated:
  "layoutRowType fst snd (False, False) \<noteq> Inr WidgetRow \<and>
   layoutRowType fst snd (False, False) \<noteq> Inr WidgetSection \<and>
   snd (True, True) \<and> layoutRowType fst snd (True, True) \<noteq> Inr WidgetSection"
  by (simp add: layoutRowType_def)

text \<open>
  Claim C1, amended: for every layout whose rows each pass \<open>isWidgetRow\<close> or
  \<open>isWidgetSection\<close>, the dispatcher renders every row of the list as one of exactly
  two components, chosen by the guards in the order the code tries them: \<open>WidgetRow\<close>
  when the row passes \<open>isWidgetRow\<close>, and otherwise \<open>WidgetSection\<close>.
\<close>

theorem dispatcher_selects_by_guard:
  assumes "\<forall>r\<in>set (layout l). isWidgetRow r \<or> isWidgetSection r"
  shows "(\<forall>r\<in>set (layout l). layoutRowType isWidgetRow isWidgetSection r =
            Inr (if isWidgetRow r then WidgetRow else WidgetSection)) \<and>
         (\<exists>nodes. render isWidgetRow isWidgetSection l = Inr nodes \<and>
            map is_component nodes =
              map (\<lambda>r. if isWidgetRow r then WidgetRow else WidgetSection) (layout l))"
proof -
  have sel: "\<forall>r\<in>set (layout l). layoutRowType isWidgetRow isWidgetSection r =
            Inr (if isWidgetRow r then WidgetRow else WidgetSection)"
    using assms by (auto simp: layoutRowType_cases)
  show ?thesis
    using sel render_rows_all_guarded [OF assms, of "layout_target l" 0]
    by (auto simp: render_def)
qed

theorem dispatcher_selects_by_guard_witness:
  "list_all (\<lambda>r. fst r \<or> snd r)
     (layout \<lparr>layout = [(True, False), (False, True), (True, True)], layout_target = ''t''\<rparr>) \<and>
   layoutRowType fst snd (True, False) = Inr WidgetRow \<and>
   layoutRowType fst snd (False, True) = Inr WidgetSection \<and>
   layoutRowType fst snd (True, True) = Inr WidgetRow \<and>
   (\<exists>nodes. render fst snd
       \<lparr>layout = [(True, False), (False, True), (True, True)], layout_target = ''t''\<rparr> = Inr nodes \<and>
      map is_component nodes = [WidgetRow, WidgetSection, WidgetRow])"
  using dispatcher_selects_by_guard
    [of "\<lparr>layout = [(True, False), (False, True), (True, True)], layout_target = ''t''\<rparr>" fst snd]
  by simp

text \<open>
  Claim C2, as stated: for every layout object the rendered output holds one component
  per descriptor. This fails on a layout with a row that passes neither guard: the
  render throws, and there is no output for the row before it either.
\<close>

theorem render_throws_on_unguarded_row:
  "render fst snd \<lparr>layout = [(True, False), (False, False)], layout_target = ''panel''\<rparr> =
     Inl (Error ''Layout row type does not exist'')"
  by (simp add: render_def layoutRowType_def)

text \<open>
  Claim C2, amended: for every layout object whose rows each pass \<open>isWidgetRow\<close> or
  \<open>isWidgetSection\<close>, the rendered output holds exactly one component per descriptor of
  \<open>layout.layout\<close>, in the order of the list and keyed by its index, and each component
  receives that descriptor as \<open>widgetData\<close> together with the \<open>layout_target\<close> of the
  layout. If a row passes neither guard, the render throws and produces no component.
\<close>

theorem render_one_node_per_row:
  "((\<forall>r\<in>set (layout l). isWidgetRow r \<or> isWidgetSection r) \<longrightarrow>
      (\<exists>nodes. render isWidgetRow isWidgetSection l = Inr nodes \<and>
         length nodes = length (layout l) \<and>
         map widgetData nodes = layout l \<and>
         map layoutTarget nodes = replicate (length (layout l)) (layout_target l) \<and>
         map key nodes = [0 ..< length (layout l)])) \<and>
   ((\<exists>r\<in>set (layout l). \<not> isWidgetRow r \<and> \<not> isWidgetSection r) \<longrightarrow>
      render isWidgetRow isWidgetSection l = Inl (Error ''Layout row type does not exist''))"
proof (intro conjI impI)
  assume ok: "\<forall>r\<in>set (layout l). isWidgetRow r \<or> isWidgetSection r"
  from render_rows_all_guarded [OF ok, of "layout_target l" 0] obtain nodes where
    r: "render_rows isWidgetRow isWidgetSection (layout_target l) 0 (layout l) = Inr nodes" and
    d: "map widgetData nodes = layout l" and
    t: "map layoutTarget nodes = replicate (length (layout l)) (layout_target l)" and
    k: "map key nodes = [0 ..< 0 + length (layout l)]"
    by blast
  have "length (map widgetData nodes) = length (layout l)" using d by simp
  then have "length nodes = length (layout l)" by simp
  then show "\<exists>nodes. render isWidgetRow isWidgetSection l = Inr nodes \<and>
         length nodes = length (layout l) \<and>
         map widgetData nodes = layout l \<and>
         map layoutTarget nodes = replicate (length (layout l)) (layout_target l) \<and>
         map key nodes = [0 ..< length (layout l)]"
    using r d t k by (simp add: render_def)
next
  assume "\<exists>r\<in>set (layout l). \<not> isWidgetRow r \<and> \<not> isWidgetSection r"
  then show "render isWidgetRow isWidgetSection l = Inl (Error ''Layout row type does not exist'')"
    unfolding render_def by (rule render_rows_unguarded)
qed

theorem render_one_node_per_row_witness:
  "list_all (\<lambda>r. fst r \<or> snd r)
     (layout \<lparr>layout = [(False, True), (True, False)], layout_target = ''panel''\<rparr>) \<and>
   render fst snd \<lparr>layout = [(False, True), (True, False)], layout_target = ''panel''\<rparr> =
     Inr [\<lparr>key = 0, is_component = WidgetSection, widgetData = (False, True), layoutTarget = ''panel''\<rparr>,
          \<lparr>key = 1, is_component = WidgetRow, widgetData = (True, False), layoutTarget = ''panel''\<rparr>] \<and>
   (\<exists>r\<in>set (layout \<lparr>layout = [(True, True), (False, False)], layout_target = ''panel''\<rparr>). \<not> fst r \<and> \<not> snd r) \<and>
   render fst snd \<lparr>layout = [(True, True), (False, False)], layout_target = ''panel''\<rparr> =
     Inl (Error ''Layout row type does not exist'')"
  using render_one_node_per_row [of "\<lparr>layout = [(False, True), (True, False)], layout_target = ''panel''\<rparr>" fst snd]
    render_one_node_per_row [of "\<lparr>layout = [(True, True), (False, False)], layout_target = ''panel''\<rparr>" fst snd]
  by (simp add: render_def layoutRowType_def)

text \<open>
  Claim C7: for a row that passes neither \<open>isWidgetRow\<close> nor \<open>isWidgetSection\<close>,
  \<open>layoutRowType\<close> throws the error \<open>Layout row type does not exist\<close> and selects no
  component; it returns a component if and only if the row passes one of the two
  guards.
\<close>

theorem layoutRowType_throws:
  "(\<not> isWidgetRow r \<and> \<not> isWidgetSection r \<longrightarrow>
      layoutRowType isWidgetRow isWidgetSection r = Inl (Error ''Layout row type does not exist'')) \<and>
   ((\<exists>c. layoutRowType isWidgetRow isWidgetSection r = Inr c) = (isWidgetRow r \<or> isWidgetSection r))"
  by (simp add: layoutRowType_def)

theorem layoutRowType_throws_witness:
  "\<not> fst (False, False) \<and> \<not> snd (False, False) \<and>
   layoutRowType fst snd (False, False) = Inl (Error ''Layout row type does not exist'') \<and>
   (\<exists>c. layoutRowType fst snd (False, True) = Inr c)"
  using layoutRowType_throws [of fst "(False, False)" snd] layoutRowType_throws [of fst "(False, True)" snd]
  by simp

section \<open>Properties of the base field wrapper\<close>

text \<open>
  Claim C3: the base field wrapper exposes exactly the focus, change and cancel events.
  It emits \<open>textFocused\<close> when the input gains the focus, \<open>textChanged\<close> when the
  input is blurred, when its change event fires or when Enter is pressed, and
  \<open>cancelTextChange\<close> when Escape is pressed; none of the three is emitted on any
  other interaction.
\<close>

theorem FieldInput_event_surface:
  "snd (FieldInput_on_event Focus this) = [textFocused] \<and>
   snd (FieldInput_on_event Blur this) = [textChanged] \<and>
   snd (FieldInput_on_event Change this) = [textChanged] \<and>
   snd (FieldInput_on_event (Keydown Enter) this) = [textChanged] \<and>
   snd (FieldInput_on_event (Keydown Esc) this) = [cancelTextChange] \<and>
   (textFocused \<in> set (snd (FieldInput_on_event e this))) = (e = Focus) \<and>
   (textChanged \<in> set (snd (FieldInput_on_event e this))) =
     (e = Blur \<or> e = Change \<or> e = Keydown Enter) \<and>
   (cancelTextChange \<in> set (snd (FieldInput_on_event e this))) = (e = Keydown Esc)"
proof -
  have "(textFocused \<in> set (snd (FieldInput_on_event e this))) = (e = Focus) \<and>
   (textChanged \<in> set (snd (FieldInput_on_event e this))) =
     (e = Blur \<or> e = Change \<or> e = Keydown Enter) \<and>
   (cancelTextChange \<in> set (snd (FieldInput_on_event e this))) = (e = Keydown Esc)"
    by (cases "(e, this)" rule: FieldInput_on_event.cases) (simp_all add: inputValue_set_def)
  then show ?thesis by simp
qed

theorem FieldInput_event_surface_witness:
  "snd (FieldInput_on_event Focus
     \<lparr>fi_value = ''12 px'', fi_label = Some ''Width'', fi_spellcheck = False,
      fi_disabled = False, fi_id = ''4711''\<rparr>) = [textFocused] \<and>
   textChanged \<notin> set (snd (FieldInput_on_event (Input ''12 pt'')
     \<lparr>fi_value = ''12 px'', fi_label = Some ''Width'', fi_spellcheck = False,
      fi_disabled = False, fi_id = ''4711''\<rparr>)) \<and>
   cancelTextChange \<notin> set (snd (FieldInput_on_event (Keydown OtherKey)
     \<lparr>fi_value = ''12 px'', fi_label = Some ''Width'', fi_spellcheck = False,
      fi_disabled = False, fi_id = ''4711''\<rparr>))"
  using FieldInput_event_surface
      [of "\<lparr>fi_value = ''12 px'', fi_label = Some ''Width'', fi_spellcheck = False,
             fi_disabled = False, fi_id = ''4711''\<rparr>" "Input ''12 pt''"]
    FieldInput_event_surface
      [of "\<lparr>fi_value = ''12 px'', fi_label = Some ''Width'', fi_spellcheck = False,
             fi_disabled = False, fi_id = ''4711''\<rparr>" "Keydown OtherKey"]
  by simp

section \<open>Properties of the text-input specialization\<close>

text \<open>What one interaction does to the component, event by event.\<close>

lemma TextInput_on_event_cases:
  "TextInput_on_event sanitize ident e this =
     (case e of
        Focus \<Rightarrow> (onTextFocused sanitize (this\<lparr>inputElement := (inputElement this)\<lparr>el_focused := True\<rparr>\<rparr>), [])
      | Blur \<Rightarrow> (onTextChanged (this\<lparr>inputElement := (inputElement this)\<lparr>el_focused := False\<rparr>\<rparr>), [])
      | Change \<Rightarrow> (onTextChanged this, [])
      | Keydown Enter \<Rightarrow> (onTextChanged this, [])
      | Keydown Esc \<Rightarrow> (onCancelTextChange this, [])
      | Keydown OtherKey \<Rightarrow> (this, [])
      | Input v \<Rightarrow> (this\<lparr>inputElement := (inputElement this)\<lparr>el_value := v\<rparr>\<rparr>, [TextInput_update_value v])
      | ComposingInput v \<Rightarrow> (this\<lparr>inputElement := (inputElement this)\<lparr>el_value := v\<rparr>\<rparr>, [])
      | OtherEvent \<Rightarrow> (this, []))"
  by (cases "(e, TextInput_field_props this ident)" rule: FieldInput_on_event.cases)
     (simp_all add: TextInput_on_event_def inputValue_set_def text_set_def)

text \<open>
  Claim C4: on every focus event the focus handler of the text-input specialization
  enters edit mode and selects the whole current text of the input element, having first
  written the current value into the element. The element holds the value as its value
  setter stores it, and the selection runs from the start to the end of that text.
\<close>

theorem onTextFocused_selects_all:
  "TextInput_on_event sanitize ident Focus this =
     (onTextFocused sanitize (this\<lparr>inputElement := (inputElement this)\<lparr>el_focused := True\<rparr>\<rparr>), []) \<and>
   editing (onTextFocused sanitize this) \<and>
   inputElement (onTextFocused sanitize this) =
     select (set_value sanitize (text_get this) (inputElement this)) \<and>
   el_value (inputElement (onTextFocused sanitize this)) = sanitize (ti_value this) \<and>
   el_selection (inputElement (onTextFocused sanitize this)) =
     Some (0, length (el_value (inputElement (onTextFocused sanitize this))))"
  by (simp add: onTextFocused_def set_value_def select_def text_get_def
        TextInput_on_event_cases Let_def)

theorem onTextFocused_selects_all_witness:
  "el_value (inputElement (onTextFocused (filter (\<lambda>c. c \<noteq> CHR 0x0A \<and> c \<noteq> CHR 0x0D))
     \<lparr>ti_value = [CHR ''a'', CHR 0x0A, CHR ''b''], ti_label = None, ti_disabled = False,
      editing = False,
      inputElement = \<lparr>el_value = ''a'', el_selection = None, el_focused = True\<rparr>\<rparr>)) = ''ab'' \<and>
   el_selection (inputElement (onTextFocused (filter (\<lambda>c. c \<noteq> CHR 0x0A \<and> c \<noteq> CHR 0x0D))
     \<lparr>ti_value = [CHR ''a'', CHR 0x0A, CHR ''b''], ti_label = None, ti_disabled = False,
      editing = False,
      inputElement = \<lparr>el_value = ''a'', el_selection = None, el_focused = True\<rparr>\<rparr>)) = Some (0, 2)"
  using onTextFocused_selects_all
    [of "filter (\<lambda>c. c \<noteq> CHR 0x0A \<and> c \<noteq> CHR 0x0D)" "''7''"
        "\<lparr>ti_value = [CHR ''a'', CHR 0x0A, CHR ''b''], ti_label = None, ti_disabled = False,
          editing = False,
          inputElement = \<lparr>el_value = ''a'', el_selection = None, el_focused = True\<rparr>\<rparr>"]
  by (simp add: set_value_def select_def text_get_def)

text \<open>
  Claim C5: commit and cancel both end edit mode. The commit handler run while
  \<open>editing\<close> is true, and the cancel handler run in any state, leave \<open>editing\<close> false
  and the input element blurred.
\<close>

theorem commit_and_cancel_end_editing:
  "(editing this \<longrightarrow>
      onTextChanged this = onCancelTextChange this \<and>
      \<not> editing (onTextChanged this) \<and>
      inputElement (onTextChanged this) = blur (inputElement this) \<and>
      \<not> el_focused (inputElement (onTextChanged this))) \<and>
   \<not> editing (onCancelTextChange this) \<and>
   inputElement (onCancelTextChange this) = blur (inputElement this) \<and>
   \<not> el_focused (inputElement (onCancelTextChange this))"
  by (simp add: onTextChanged_def onCancelTextChange_def blur_def Let_def)

theorem commit_and_cancel_end_editing_witness:
  "editing
     \<lparr>ti_value = ''Layer 1'', ti_label = None, ti_disabled = False, editing = True,
      inputElement = \<lparr>el_value = ''Layer 2'', el_selection = Some (7, 7), el_focused = True\<rparr>\<rparr> \<and>
   onTextChanged
     \<lparr>ti_value = ''Layer 1'', ti_label = None, ti_disabled = False, editing = True,
      inputElement = \<lparr>el_value = ''Layer 2'', el_selection = Some (7, 7), el_focused = True\<rparr>\<rparr> =
     \<lparr>ti_value = ''Layer 1'', ti_label = None, ti_disabled = False, editing = False,
      inputElement = \<lparr>el_value = ''Layer 2'', el_selection = Some (7, 7), el_focused = False\<rparr>\<rparr>"
  using commit_and_cancel_end_editing
    [of "\<lparr>ti_value = ''Layer 1'', ti_label = None, ti_disabled = False, editing = True,
      inputElement = \<lparr>el_value = ''Layer 2'', el_selection = Some (7, 7), el_focused = True\<rparr>\<rparr>"]
  by (simp add: onCancelTextChange_def blur_def)

text \<open>
  Claim C8: outside edit mode the commit handler is a no-op, which makes cancelling
  idempotent. With \<open>editing\<close> false, \<open>onTextChanged\<close> changes nothing; so
  \<open>onCancelTextChange\<close> followed by the \<open>textChanged\<close> event that its own call of
  \<open>blur\<close> triggers leaves the component as \<open>onCancelTextChange\<close> alone does.
\<close>

theorem commit_noop_outside_editing:
  "(\<not> editing this \<longrightarrow> onTextChanged this = this) \<and>
   onTextChanged (onCancelTextChange this) = onCancelTextChange this \<and>
   TextInput_on_event sanitize ident Blur (onCancelTextChange this) = (onCancelTextChange this, [])"
  by (simp add: onTextChanged_def onCancelTextChange_def blur_def Let_def TextInput_on_event_cases)

theorem commit_noop_outside_editing_witness:
  "\<not> editing
     \<lparr>ti_value = ''Layer 1'', ti_label = None, ti_disabled = False, editing = False,
      inputElement = \<lparr>el_value = ''Layer 2'', el_selection = None, el_focused = True\<rparr>\<rparr> \<and>
   onTextChanged
     \<lparr>ti_value = ''Layer 1'', ti_label = None, ti_disabled = False, editing = False,
      inputElement = \<lparr>el_value = ''Layer 2'', el_selection = None, el_focused = True\<rparr>\<rparr> =
     \<lparr>ti_value = ''Layer 1'', ti_label = None, ti_disabled = False, editing = False,
      inputElement = \<lparr>el_value = ''Layer 2'', el_selection = None, el_focused = True\<rparr>\<rparr>"
  using commit_noop_outside_editing
    [of "\<lparr>ti_value = ''Layer 1'', ti_label = None, ti_disabled = False, editing = False,
      inputElement = \<lparr>el_value = ''Layer 2'', el_selection = None, el_focused = True\<rparr>\<rparr>"]
  by simp

subsection \<open>The editing flag along a sequence of interactions\<close>

lemma editing_after_event:
  "editing (fst (TextInput_on_event sanitize ident e this)) =
     (if e = Focus then True else if commits_or_cancels e then False else editing this)"
  by (cases e rule: commits_or_cancels.cases)
     (simp_all add: TextInput_on_event_cases onTextFocused_def set_value_def onTextChanged_def
        onCancelTextChange_def Let_def)

text \<open>Where an element first occurs in a list that starts with \<open>e\<close>.\<close>

lemma Cons_eq_split_at:
  "(\<exists>pre post. e # es = pre @ x # post \<and> P post) =
     ((e = x \<and> P es) \<or> (\<exists>pre post. es = pre @ x # post \<and> P post))"
proof
  assume "\<exists>pre post. e # es = pre @ x # post \<and> P post"
  then obtain pre post where eq: "e # es = pre @ x # post" and p: "P post" by blast
  show "(e = x \<and> P es) \<or> (\<exists>pre post. es = pre @ x # post \<and> P post)"
  proof (cases pre)
    case Nil
    then show ?thesis using eq p by simp
  next
    case (Cons a pre')
    then have "es = pre' @ x # post" using eq by simp
    then show ?thesis using p by blast
  qed
next
  assume "(e = x \<and> P es) \<or> (\<exists>pre post. es = pre @ x # post \<and> P post)"
  then show "\<exists>pre post. e # es = pre @ x # post \<and> P post"
  proof
    assume "e = x \<and> P es"
    then have "e # es = [] @ x # es \<and> P es" by simp
    then show ?thesis by blast
  next
    assume "\<exists>pre post. es = pre @ x # post \<and> P post"
    then obtain pre post where "es = pre @ x # post" and p: "P post" by blast
    then have "e # es = (e # pre) @ x # post" by simp
    then show ?thesis using p by blast
  qed
qed

lemma editing_after_run:
  "editing (fst (run sanitize ident es this)) =
     ((\<exists>pre post. es = pre @ Focus # post \<and> (\<forall>e\<in>set post. \<not> commits_or_cancels e)) \<or>
      (editing this \<and> (\<forall>e\<in>set es. \<not> commits_or_cancels e)))"
proof (induction es arbitrary: this)
  case Nil
  then show ?case by simp
next
  case (Cons e es)
  obtain this1 out1 where step: "TextInput_on_event sanitize ident e this = (this1, out1)"
    by (cases "TextInput_on_event sanitize ident e this")
  have ed: "editing this1 =
     (if e = Focus then True else if commits_or_cancels e then False else editing this)"
    using editing_after_event [of sanitize ident e this] step by simp
  have run_eq: "editing (fst (run sanitize ident (e # es) this)) = editing (fst (run sanitize ident es this1))"
    using step by (simp split: prod.splits)
  show ?case
    unfolding run_eq Cons.IH [of this1] ed Cons_eq_split_at
    by (cases e rule: commits_or_cancels.cases) auto
qed

text \<open>
  Claim C6: edit-mode tracking is a sound state machine. The flag \<open>editing\<close> starts
  false; a transition that turns it on is the focus handler; a transition that turns it
  off is the commit or the cancel handler; after a commit or a cancel it is never on.
  Hence, along any sequence of interactions with a fresh component, \<open>editing\<close> is true
  exactly when there has been a focus event with no commit or cancel after it.
\<close>

theorem editing_state_machine:
  "\<not> editing (created v l d el) \<and>
   (\<not> editing this \<and> editing (fst (TextInput_on_emit sanitize x this)) \<longrightarrow>
      x = textFocused \<and> fst (TextInput_on_emit sanitize x this) = onTextFocused sanitize this) \<and>
   (editing this \<and> \<not> editing (fst (TextInput_on_emit sanitize x this)) \<longrightarrow>
      (x = textChanged \<and> fst (TextInput_on_emit sanitize x this) = onTextChanged this) \<or>
      (x = cancelTextChange \<and> fst (TextInput_on_emit sanitize x this) = onCancelTextChange this)) \<and>
   (x = textChanged \<or> x = cancelTextChange \<longrightarrow> \<not> editing (fst (TextInput_on_emit sanitize x this))) \<and>
   editing (fst (run sanitize ident es (created v l d el))) =
     (\<exists>pre post. es = pre @ Focus # post \<and> (\<forall>e\<in>set post. \<not> commits_or_cancels e))"
proof -
  have start: "\<not> editing (created v l d el)"
    by (simp add: created_def)
  have handlers:
    "(\<not> editing this \<and> editing (fst (TextInput_on_emit sanitize x this)) \<longrightarrow>
        x = textFocused \<and> fst (TextInput_on_emit sanitize x this) = onTextFocused sanitize this) \<and>
     (editing this \<and> \<not> editing (fst (TextInput_on_emit sanitize x this)) \<longrightarrow>
        (x = textChanged \<and> fst (TextInput_on_emit sanitize x this) = onTextChanged this) \<or>
        (x = cancelTextChange \<and> fst (TextInput_on_emit sanitize x this) = onCancelTextChange this)) \<and>
     (x = textChanged \<or> x = cancelTextChange \<longrightarrow> \<not> editing (fst (TextInput_on_emit sanitize x this)))"
    by (cases x)
       (simp_all add: text_set_def onTextFocused_def set_value_def onTextChanged_def onCancelTextChange_def
          Let_def)
  have trace: "editing (fst (run sanitize ident es (created v l d el))) =
     (\<exists>pre post. es = pre @ Focus # post \<and> (\<forall>e\<in>set post. \<not> commits_or_cancels e))"
    using start by (simp add: editing_after_run)
  show ?thesis
    using start handlers trace by blast
qed

theorem editing_state_machine_witness:
  "\<not> editing (created ''Layer 1'' None False
       \<lparr>el_value = ''Layer 1'', el_selection = None, el_focused = False\<rparr>) \<and>
   editing (fst (TextInput_on_emit id textFocused (created ''Layer 1'' None False
       \<lparr>el_value = ''Layer 1'', el_selection = None, el_focused = False\<rparr>))) \<and>
   editing (onTextFocused id (created ''Layer 1'' None False
       \<lparr>el_value = ''Layer 1'', el_selection = None, el_focused = False\<rparr>)) \<and>
   \<not> editing (fst (TextInput_on_emit id cancelTextChange (onTextFocused id (created ''Layer 1'' None False
       \<lparr>el_value = ''Layer 1'', el_selection = None, el_focused = False\<rparr>)))) \<and>
   editing (fst (run id ''7'' [Focus, Input ''Layer 2'', Keydown Enter, Blur, Focus, Keydown OtherKey]
     (created ''Layer 1'' None False
       \<lparr>el_value = ''Layer 1'', el_selection = None, el_focused = False\<rparr>))) \<and>
   \<not> editing (fst (run id ''7'' [Focus, Input ''Layer 2'', Keydown Enter, Blur]
     (created ''Layer 1'' None False
       \<lparr>el_value = ''Layer 1'', el_selection = None, el_focused = False\<rparr>)))"
  using editing_state_machine
      [where v = "''Layer 1''" and l = None and d = False
         and el = "\<lparr>el_value = ''Layer 1'', el_selection = None, el_focused = False\<rparr>"
         and this = "created ''Layer 1'' None False
             \<lparr>el_value = ''Layer 1'', el_selection = None, el_focused = False\<rparr>"
         and sanitize = id and x = textFocused]
    editing_state_machine
      [where v = "''Layer 1''" and l = None and d = False
         and el = "\<lparr>el_value = ''Layer 1'', el_selection = None, el_focused = False\<rparr>"
         and this = "onTextFocused id (created ''Layer 1'' None False
             \<lparr>el_value = ''Layer 1'', el_selection = None, el_focused = False\<rparr>)"
         and sanitize = id and x = cancelTextChange]
  by (simp add: created_def onTextFocused_def set_value_def onTextChanged_def onCancelTextChange_def
        TextInput_on_event_cases text_set_def Let_def)

subsection \<open>The value prop\<close>






end
